theory Spec2Isabelle
  imports Complex_Main
begin

section \<open>JavaScript numbers\<close>

text \<open>
  A number of the source is \<open>NaN\<close> or a finite real number \<open>Num x\<close>. Arithmetic with
  \<open>NaN\<close> gives \<open>NaN\<close> and every comparison with \<open>NaN\<close> is false; an argument that is
  omitted (\<open>undefined\<close>) behaves as \<open>NaN\<close> in the arithmetic and the comparisons of the
  functions below. The infinities, the signed zero, overflow and the rounding of
  IEEE doubles are not part of the model: on finite numbers the operations are those
  of the reals. Where the source would produce an infinity from finite numbers, a
  quotient by zero or the logarithm of zero, the model gives \<open>NaN\<close>. The one quotient
  of the functions below whose divisor can be zero without being caught before, in
  the strike ladder of \<open>generateOptionChain\<close>, is rounded and multiplied by the zero
  divisor at once, which is \<open>NaN\<close> in the source as well.
\<close>

datatype jsnum = NaN | Num (the_num: real)

text \<open>
  The operators of the source on \<open>jsnum\<close>. The quotient, written \<open>div\<close> in its
  defining equation, is the operator \<open>/\<close> of the definitions below.
\<close>

instantiation jsnum :: "{plus, minus, times, uminus, inverse, ord}"
begin

definition plus_jsnum_def:
  "a + b = (case a of NaN \<Rightarrow> NaN | Num x \<Rightarrow> (case b of NaN \<Rightarrow> NaN | Num y \<Rightarrow> Num (x + y)))"

definition minus_jsnum_def:
  "a - b = (case a of NaN \<Rightarrow> NaN | Num x \<Rightarrow> (case b of NaN \<Rightarrow> NaN | Num y \<Rightarrow> Num (x - y)))"

definition times_jsnum_def:
  "a * b = (case a of NaN \<Rightarrow> NaN | Num x \<Rightarrow> (case b of NaN \<Rightarrow> NaN | Num y \<Rightarrow> Num (x * y)))"

definition uminus_jsnum_def:
  "- a = (case a of NaN \<Rightarrow> NaN | Num x \<Rightarrow> Num (- x))"

definition divide_jsnum_def:
  "a div b = (case a of NaN \<Rightarrow> NaN | Num x \<Rightarrow>
               (case b of NaN \<Rightarrow> NaN | Num y \<Rightarrow> if y = 0 then NaN else Num (x / y)))"

definition inverse_jsnum_def:
  "inverse a = (case a of NaN \<Rightarrow> NaN | Num x \<Rightarrow> if x = 0 then NaN else Num (inverse x))"

definition less_eq_jsnum_def:
  "a \<le> b = (case a of NaN \<Rightarrow> False | Num x \<Rightarrow> (case b of NaN \<Rightarrow> False | Num y \<Rightarrow> x \<le> y))"

definition less_jsnum_def:
  "a < b = (case a of NaN \<Rightarrow> False | Num x \<Rightarrow> (case b of NaN \<Rightarrow> False | Num y \<Rightarrow> x < y))"

instance ..

end

text \<open>The functions of \<open>Math\<close> that the source calls, and \<open>isFinite\<close>.\<close>

fun Math_abs :: "jsnum \<Rightarrow> jsnum" where
  "Math_abs NaN = NaN"
| "Math_abs (Num x) = Num \<bar>x\<bar>"

fun Math_exp :: "jsnum \<Rightarrow> jsnum" where
  "Math_exp NaN = NaN"
| "Math_exp (Num x) = Num (exp x)"

fun Math_log :: "jsnum \<Rightarrow> jsnum" where
  "Math_log NaN = NaN"
| "Math_log (Num x) = (if 0 < x then Num (ln x) else NaN)"

fun Math_sqrt :: "jsnum \<Rightarrow> jsnum" where
  "Math_sqrt NaN = NaN"
| "Math_sqrt (Num x) = (if 0 \<le> x then Num (sqrt x) else NaN)"

fun Math_round :: "jsnum \<Rightarrow> jsnum" where
  "Math_round NaN = NaN"
| "Math_round (Num x) = Num (of_int (round x))"

fun Math_max :: "jsnum \<Rightarrow> jsnum \<Rightarrow> jsnum" where
  "Math_max (Num x) (Num y) = Num (max x y)"
| "Math_max a b = NaN"

fun isFinite :: "jsnum \<Rightarrow> bool" where
  "isFinite NaN = False"
| "isFinite (Num x) = True"

section \<open>Option pricing: server/optionCalc.js\<close>

text \<open>Every \<open>throw\<close> of the source is a value of \<open>error\<close>.\<close>

datatype error =
    StockPriceNotPositive
  | StrikePriceNotPositive
  | TimeToExpirationNotPositive
  | VolatilityNotPositive
  | InvalidOptionType
  | PricesMustBeArray
  | CurrentPriceNotPositive

definition DAYS_PER_YEAR :: real where
  "DAYS_PER_YEAR = 365"

definition normalCDF :: "jsnum \<Rightarrow> jsnum" where
  "normalCDF x =
     (let t = Num 1 / (Num 1 + Num 0.2316419 * Math_abs x);
          d = Num 0.3989423 * Math_exp (- x * x / Num 2);
          prob = d * t * (Num 0.3193815 + t * (Num (- 0.3565638) + t * (Num 1.781478
                   + t * (Num (- 1.821256) + t * Num 1.330274))))
      in if x > Num 0 then Num 1 - prob else prob)"

definition blackScholes :: "string \<Rightarrow> jsnum \<Rightarrow> jsnum \<Rightarrow> jsnum \<Rightarrow> jsnum \<Rightarrow> jsnum \<Rightarrow> error + jsnum" where
  "blackScholes type S K T r v =
     (if S \<le> Num 0 then Inl StockPriceNotPositive
      else if K \<le> Num 0 then Inl StrikePriceNotPositive
      else if T \<le> Num 0 then Inl TimeToExpirationNotPositive
      else if v \<le> Num 0 then Inl VolatilityNotPositive
      else if T < Num 0.00001 then
        (if type = ''call'' then Inr (Math_max (Num 0) (S - K)) else Inr (Math_max (Num 0) (K - S)))
      else
        (let d1 = (Math_log (S / K) + (r + v * v / Num 2) * T) / (v * Math_sqrt T);
             d2 = d1 - v * Math_sqrt T
         in if type = ''call'' then Inr (S * normalCDF d1 - K * Math_exp (- r * T) * normalCDF d2)
            else if type = ''put'' then Inr (K * Math_exp (- r * T) * normalCDF (- d2) - S * normalCDF (- d1))
            else Inl InvalidOptionType))"

subsection \<open>Historical volatility\<close>

text \<open>
  The closes that reach \<open>calculateHistoricalVolatility\<close> are the \<open>REAL\<close> column read from
  the database: the series is a list of finite numbers.
\<close>

text \<open>
  The loop of \<open>calculateHistoricalVolatility\<close> over \<open>i = 1 .. prices.length - 1\<close>: it
  returns the warnings written with \<open>console.warn\<close> and the array \<open>returns\<close>. In the
  first equation \<open>p\<close> is \<open>prices[i-1]\<close> and \<open>q\<close> is \<open>prices[i]\<close>.
\<close>

fun returnsLoop :: "real list \<Rightarrow> string list \<times> real list" where
  "returnsLoop (p # q # ps) =
     (let (warns, returns) = returnsLoop (q # ps)
      in if q \<le> 0 \<or> p \<le> 0 then (''Invalid price data detected, skipping'' # warns, returns)
         else (warns, ln (q / p) # returns))"
| "returnsLoop ps = ([], [])"

text \<open>
  The argument \<open>prices\<close> is \<open>None\<close> for a value that is not an array. The result is the
  list of warnings logged and the number returned. \<open>actualPeriod\<close> is computed as in
  the source, which never reads it again.
\<close>

definition calculateHistoricalVolatility :: "real list option \<Rightarrow> real \<Rightarrow> error + (string list \<times> real)" where
  "calculateHistoricalVolatility prices period =
     (case prices of
        None \<Rightarrow> Inl PricesMustBeArray
      | Some ps \<Rightarrow>
          (let actualPeriod = min period (real (length ps) - 1)
           in if length ps < 2 then
                Inr ([''Insufficient price data for volatility calculation, using default value''], 0.3)
              else
                (let (warns, returns) = returnsLoop ps
                 in if length returns = 0 then
                      Inr (warns @ [''No valid returns calculated, using default volatility''], 0.3)
                    else
                      (let mean = foldl (\<lambda>sum val. sum + val) 0 returns / real (length returns);
                           variance = foldl (\<lambda>sum val. sum + (val - mean) ^ 2) 0 returns / real (length returns);
                           dailyVolatility = sqrt variance
                       in Inr (warns, dailyVolatility * sqrt DAYS_PER_YEAR)))))"

subsection \<open>Option chain of the library\<close>

text \<open>
  A contract of the chain. The route handler's contracts have no \<open>rho\<close> field
  (\<open>None\<close>); those of \<open>generateOptionChain\<close> have one.
\<close>

record contract =
  strike :: jsnum
  price :: jsnum
  delta :: jsnum
  gamma :: jsnum
  theta :: jsnum
  vega :: jsnum
  rho :: "jsnum option"
  inTheMoney :: bool

record expiryData =
  calls :: "contract list"
  puts :: "contract list"

text \<open>
  The strike loop of \<open>generateOptionChain\<close> (lines 181 to 186). With a step of zero
  the base strike and every strike are \<open>NaN\<close>.
\<close>

definition generateStrikes :: "jsnum \<Rightarrow> int \<Rightarrow> jsnum \<Rightarrow> jsnum list" where
  "generateStrikes currentPrice strikePriceCount strikePriceStep =
     (let baseStrike = Math_round (currentPrice / strikePriceStep) * strikePriceStep
      in map (\<lambda>i. baseStrike + Num (of_int i) * strikePriceStep)
           [- (strikePriceCount div 2) .. strikePriceCount div 2])"

text \<open>The placeholder pushed by the \<open>catch\<close> of \<open>generateOptionChain\<close>.\<close>

definition chainPlaceholder :: "jsnum \<Rightarrow> contract" where
  "chainPlaceholder = (\<lambda>strike.
     \<lparr>strike = strike, price = Num 0, delta = Num 0, gamma = Num 0, theta = Num 0, vega = Num 0,
      rho = Some (Num 0), inTheMoney = False\<rparr>)"

text \<open>
  The body of \<open>strikes.forEach\<close> in \<open>generateOptionChain\<close>: the call and the put pushed
  for one strike. Only \<open>blackScholes\<close> can throw inside the \<open>try\<close>, and both pushes
  come after both calls of it.
\<close>

definition chainStrikeContracts :: "jsnum \<Rightarrow> jsnum \<Rightarrow> jsnum \<Rightarrow> jsnum \<Rightarrow> jsnum \<Rightarrow> contract \<times> contract" where
  "chainStrikeContracts currentPrice riskFreeRate volatility timeToExpiry = (\<lambda>strike.
     case blackScholes ''call'' currentPrice strike timeToExpiry riskFreeRate volatility of
       Inl err \<Rightarrow> (chainPlaceholder strike, chainPlaceholder strike)
     | Inr callPrice \<Rightarrow>
        (case blackScholes ''put'' currentPrice strike timeToExpiry riskFreeRate volatility of
           Inl err \<Rightarrow> (chainPlaceholder strike, chainPlaceholder strike)
         | Inr putPrice \<Rightarrow>
            (let d1 = (Math_log (currentPrice / strike) + (riskFreeRate + volatility * volatility / Num 2) * timeToExpiry)
                        / (volatility * Math_sqrt timeToExpiry);
                 d2 = d1 - volatility * Math_sqrt timeToExpiry;
                 callDelta = normalCDF d1;
                 putDelta = callDelta - Num 1;
                 gamma = Num 0.3989423 * Math_exp (- d1 * d1 / Num 2)
                           / (currentPrice * volatility * Math_sqrt timeToExpiry);
                 theta = - currentPrice * volatility * Num 0.3989423 * Math_exp (- d1 * d1 / Num 2)
                             / (Num 2 * Math_sqrt timeToExpiry)
                           - riskFreeRate * strike * Math_exp (- riskFreeRate * timeToExpiry);
                 callTheta = theta / Num DAYS_PER_YEAR;
                 putTheta = (theta + riskFreeRate * strike * Math_exp (- riskFreeRate * timeToExpiry))
                              / Num DAYS_PER_YEAR;
                 vega = currentPrice * Math_sqrt timeToExpiry * Num 0.3989423 * Math_exp (- d1 * d1 / Num 2)
                          / Num 100;
                 callRho = strike * timeToExpiry * Math_exp (- riskFreeRate * timeToExpiry) * normalCDF d2
                             / Num 100;
                 putRho = - strike * timeToExpiry * Math_exp (- riskFreeRate * timeToExpiry) * normalCDF (- d2)
                            / Num 100
             in (\<lparr>strike = strike, price = callPrice, delta = callDelta, gamma = gamma,
                  theta = callTheta, vega = vega, rho = Some callRho,
                  inTheMoney = (currentPrice > strike)\<rparr>,
                 \<lparr>strike = strike, price = putPrice, delta = putDelta, gamma = gamma,
                  theta = putTheta, vega = vega, rho = Some putRho,
                  inTheMoney = (currentPrice < strike)\<rparr>))))"

text \<open>
  \<open>generateOptionChain\<close>: the chain is the object \<open>optionChain\<close>, a map from the
  expiry in days to its calls and puts.
\<close>

definition generateOptionChain ::
  "jsnum \<Rightarrow> jsnum \<Rightarrow> jsnum \<Rightarrow> jsnum list \<Rightarrow> int \<Rightarrow> jsnum \<Rightarrow> error + (jsnum \<rightharpoonup> expiryData)" where
  "generateOptionChain currentPrice volatility riskFreeRate daysToExpiration strikePriceCount strikePriceStep =
     (if currentPrice \<le> Num 0 then Inl CurrentPriceNotPositive
      else
        (let volatility1 = (if volatility \<le> Num 0 \<or> \<not> isFinite volatility then Num 0.3 else volatility);
             volatility2 = (if volatility1 > Num 2 then Num 2 else volatility1);
             strikes = generateStrikes currentPrice strikePriceCount strikePriceStep
         in Inr (fold (\<lambda>days optionChain.
                    let timeToExpiry = days / Num DAYS_PER_YEAR;
                        cs = map (chainStrikeContracts currentPrice riskFreeRate volatility2 timeToExpiry) strikes
                    in optionChain(days \<mapsto> \<lparr>calls = map fst cs, puts = map snd cs\<rparr>))
                  daysToExpiration Map.empty)))"

section \<open>The options route: GET /api/options/:ticker\<close>

text \<open>
  Lines 212 to 224: the volatility used for pricing, from the closes read from the
  database (at most 30, newest first).
\<close>

definition routeVolatility :: "real list \<Rightarrow> real" where
  "routeVolatility closingPrices =
     (if length closingPrices > 1 then
        (case calculateHistoricalVolatility (Some closingPrices) 30 of
           Inl volatilityError \<Rightarrow> 0.25
         | Inr (warns, volatility) \<Rightarrow> max 0.1 (min volatility 0.8))
      else 0.25)"

text \<open>Lines 226 to 238: the strikes, sorted high to low.\<close>

definition routeStrikes :: "real \<Rightarrow> real list" where
  "routeStrikes currentPrice =
     (let baseStrike = of_int (round (currentPrice / 5)) * 5;
          strikeStep = 5;
          strikesCount = (10::int);
          strikes = map (\<lambda>i. baseStrike + of_int i * strikeStep)
                      [- (strikesCount div 2) .. strikesCount div 2]
      in rev (sort strikes))"

text \<open>
  A JavaScript \<open>Date\<close>: the milliseconds since the epoch, or an invalid date, which
  compares false with everything.
\<close>

datatype jsdate = InvalidDate | DateMs int

text \<open>
  Lines 240 to 262. \<open>requestedDate\<close> is \<open>None\<close> when the query has no date, and
  otherwise the value of \<open>new Date(requestedDate)\<close>; \<open>today\<close> is the time of the
  request in milliseconds.
\<close>

definition routeDaysToExpiration :: "jsdate option \<Rightarrow> int \<Rightarrow> int list" where
  "routeDaysToExpiration requestedDate today =
     (let daysToExpiration = [0, 30, 60, 90, 180]
      in case requestedDate of
           None \<Rightarrow> daysToExpiration
         | Some InvalidDate \<Rightarrow> daysToExpiration
         | Some (DateMs targetDate) \<Rightarrow>
             if targetDate > today then
               (let diffTime = \<bar>targetDate - today\<bar>;
                    diffDays = \<lceil>real_of_int diffTime / (1000 * 60 * 60 * 24)\<rceil>
                in sort (diffDays # filter (\<lambda>d. d \<noteq> 0) daysToExpiration))
             else daysToExpiration)"

text \<open>The placeholder pushed by the handler's per-strike \<open>catch\<close> (lines 326 to 347).\<close>

definition routePlaceholder :: "jsnum \<Rightarrow> contract" where
  "routePlaceholder = (\<lambda>strike.
     \<lparr>strike = strike, price = Num 0.01, delta = Num 0, gamma = Num 0, theta = Num 0, vega = Num 0,
      rho = None, inTheMoney = False\<rparr>)"

text \<open>The body of the handler's \<open>strikes.forEach\<close> (lines 275 to 348).\<close>

definition routeStrikeContracts :: "jsnum \<Rightarrow> jsnum \<Rightarrow> jsnum \<Rightarrow> jsnum \<Rightarrow> jsnum \<Rightarrow> contract \<times> contract" where
  "routeStrikeContracts currentPrice riskFreeRate volatility timeToExpiry = (\<lambda>strike.
     case blackScholes ''call'' currentPrice strike timeToExpiry riskFreeRate volatility of
       Inl err \<Rightarrow> (routePlaceholder strike, routePlaceholder strike)
     | Inr callPrice \<Rightarrow>
        (case blackScholes ''put'' currentPrice strike timeToExpiry riskFreeRate volatility of
           Inl err \<Rightarrow> (routePlaceholder strike, routePlaceholder strike)
         | Inr putPrice \<Rightarrow>
            (let d1 = (Math_log (currentPrice / strike) + (riskFreeRate + volatility * volatility / Num 2) * timeToExpiry)
                        / (volatility * Math_sqrt timeToExpiry);
                 d2 = d1 - volatility * Math_sqrt timeToExpiry;
                 callDelta = normalCDF d1;
                 putDelta = callDelta - Num 1;
                 normDist = Math_exp (- d1 * d1 / Num 2) / Math_sqrt (Num 2 * Num pi);
                 gamma = normDist / (currentPrice * volatility * Math_sqrt timeToExpiry);
                 callTheta = (- currentPrice * normDist * volatility / (Num 2 * Math_sqrt timeToExpiry)
                              - riskFreeRate * strike * Math_exp (- riskFreeRate * timeToExpiry) * normalCDF d2)
                             / Num 365;
                 putTheta = (- currentPrice * normDist * volatility / (Num 2 * Math_sqrt timeToExpiry)
                             + riskFreeRate * strike * Math_exp (- riskFreeRate * timeToExpiry) * normalCDF (- d2))
                            / Num 365;
                 vega = currentPrice * Math_sqrt timeToExpiry * normDist / Num 100
             in (\<lparr>strike = strike, price = Math_max (Num 0.01) callPrice, delta = callDelta, gamma = gamma,
                  theta = callTheta, vega = vega, rho = None,
                  inTheMoney = (currentPrice > strike)\<rparr>,
                 \<lparr>strike = strike, price = Math_max (Num 0.01) putPrice, delta = putDelta, gamma = gamma,
                  theta = putTheta, vega = vega, rho = None,
                  inTheMoney = (currentPrice < strike)\<rparr>))))"

text \<open>
  Lines 264 to 352: the chain, one entry for each expiry of the ladder. The spot
  price, the volatility, the strikes and the days of the handler are finite numbers.
\<close>

definition routeOptionChain :: "real \<Rightarrow> real \<Rightarrow> real list \<Rightarrow> int list \<Rightarrow> (int \<rightharpoonup> expiryData)" where
  "routeOptionChain currentPrice volatility strikes daysToExpiration =
     (let riskFreeRate = Num 0.035
      in fold (\<lambda>days optionChain.
                 let timeToExpiry = (if days = 0 then Num (1 / 365) else Num (real_of_int days) / Num 365);
                     cs = map (\<lambda>strike. routeStrikeContracts (Num currentPrice) riskFreeRate (Num volatility)
                                 timeToExpiry (Num strike)) strikes
                 in optionChain(days \<mapsto> \<lparr>calls = map fst cs, puts = map snd cs\<rparr>))
           daysToExpiration Map.empty)"

text \<open>
  The answer of the handler's database callback: status 500 when the query failed
  with \<open>err\<close>, 404 when there is no row, else the JSON body with the spot price, the
  volatility and the chain (the ticker and the date are echoed from the request).
  Inside the outer \<open>try\<close> only \<open>blackScholes\<close> and \<open>calculateHistoricalVolatility\<close> throw,
  and both are caught where they are called, so the outer \<open>catch\<close> has no case here.
\<close>

datatype response =
    DatabaseError string
  | NotFound
  | OkJson (responsePrice: real) (responseVolatility: real) (responseOptionChain: "int \<rightharpoonup> expiryData")

definition optionsRoute :: "string option \<Rightarrow> real list \<Rightarrow> jsdate option \<Rightarrow> int \<Rightarrow> response" where
  "optionsRoute err rows requestedDate today =
     (case err of
        Some message \<Rightarrow> DatabaseError message
      | None \<Rightarrow>
          (case rows of
             [] \<Rightarrow> NotFound
           | close0 # rest \<Rightarrow>
               (let currentPrice = close0;
                    volatility = routeVolatility rows;
                    strikes = routeStrikes currentPrice;
                    daysToExpiration = routeDaysToExpiration requestedDate today
                in OkJson currentPrice volatility
                     (routeOptionChain currentPrice volatility strikes daysToExpiration))))"

section \<open>Retry with backoff: frontend/src/App.js\<close>

text \<open>
  The error thrown by the retried function: \<open>error.response\<close> may be absent, and its
  \<open>data\<close> may be absent.
\<close>

record errorResponse =
  status :: int
  data :: "string option"

datatype fetchError = FetchError "errorResponse option"

fun response_of :: "fetchError \<Rightarrow> errorResponse option" where
  "response_of (FetchError r) = r"

text \<open>\<open>String.prototype.includes\<close>: the second string occurs in the first.\<close>

fun includes_str :: "string \<Rightarrow> string \<Rightarrow> bool" where
  "includes_str [] sub = (sub = [])"
| "includes_str (c # cs) sub = (take (length sub) (c # cs) = sub \<or> includes_str cs sub)"

definition isRateLimit :: "fetchError \<Rightarrow> bool" where
  "isRateLimit err =
     (case response_of err of
        None \<Rightarrow> False
      | Some r \<Rightarrow> status r = 429 \<or> (case data r of None \<Rightarrow> False | Some d \<Rightarrow> includes_str d ''limit''))"

text \<open>
  The loop of \<open>retryWithBackoff\<close>. The retried function is given by the outcome of
  each of its calls, \<open>fn k\<close> for the call made when \<open>retries = k\<close>. The result is the
  list of the delays waited, in order, and the value returned (\<open>Inr\<close>) or the error
  thrown to the caller (\<open>Inl\<close>).
\<close>

function retryLoop :: "(nat \<Rightarrow> fetchError + 'a) \<Rightarrow> nat \<Rightarrow> nat \<Rightarrow> nat \<Rightarrow> nat list \<times> (fetchError + 'a)" where
  "retryLoop fn maxRetries initialDelay retries =
     (case fn retries of
        Inr result \<Rightarrow> ([], Inr result)
      | Inl err \<Rightarrow>
          if retries \<ge> maxRetries then ([], Inl err)
          else
            (let delay = (if isRateLimit err then initialDelay * 2 ^ retries * 2
                          else initialDelay * 2 ^ retries);
                 (delays, res) = retryLoop fn maxRetries initialDelay (retries + 1)
             in (delay # delays, res)))"
  by pat_completeness auto
termination
  by (relation "measure (\<lambda>(fn, maxRetries, initialDelay, retries). maxRetries - retries)") auto

definition retryWithBackoff :: "(nat \<Rightarrow> fetchError + 'a) \<Rightarrow> nat \<Rightarrow> nat \<Rightarrow> nat list \<times> (fetchError + 'a)" where
  "retryWithBackoff fn maxRetries initialDelay = retryLoop fn maxRetries initialDelay 0"

section \<open>Arithmetic on finite numbers and on NaN\<close>

lemma jsnum_plus [simp]:
  "Num x + Num y = Num (x + y)" "NaN + b = NaN" "a + NaN = NaN"
  by (simp_all add: plus_jsnum_def split: jsnum.splits)

lemma jsnum_minus [simp]:
  "Num x - Num y = Num (x - y)" "NaN - b = NaN" "a - NaN = NaN"
  by (simp_all add: minus_jsnum_def split: jsnum.splits)

lemma jsnum_times [simp]:
  "Num x * Num y = Num (x * y)" "NaN * b = NaN" "a * NaN = NaN"
  by (simp_all add: times_jsnum_def split: jsnum.splits)

lemma jsnum_uminus [simp]:
  "- Num x = Num (- x)" "- NaN = NaN"
  by (simp_all add: uminus_jsnum_def)

lemma jsnum_divide [simp]:
  "Num x / Num y = (if y = 0 then NaN else Num (x / y))" "NaN / b = NaN" "a / NaN = NaN"
  by (simp_all add: divide_jsnum_def split: jsnum.splits)

lemma jsnum_less_eq [simp]:
  "Num x \<le> Num y \<longleftrightarrow> x \<le> y" "\<not> NaN \<le> b" "\<not> a \<le> NaN"
  by (simp_all add: less_eq_jsnum_def split: jsnum.splits)

lemma jsnum_less [simp]:
  "Num x < Num y \<longleftrightarrow> x < y" "\<not> NaN < b" "\<not> a < NaN"
  by (simp_all add: less_jsnum_def split: jsnum.splits)

lemma jsnum_less_Num: "Num x < a \<longleftrightarrow> (\<exists>y. a = Num y \<and> x < y)"
  by (cases a) simp_all

lemma jsnum_less_Num2: "a < Num y \<longleftrightarrow> (\<exists>x. a = Num x \<and> x < y)"
  by (cases a) simp_all

lemma jsnum_le_Num: "Num x \<le> a \<longleftrightarrow> (\<exists>y. a = Num y \<and> x \<le> y)"
  by (cases a) simp_all

section \<open>The normal distribution approximation at a finite argument\<close>

lemma normalCDF_Num_eq:
  "normalCDF (Num x) =
     Num (let t = 1 / (1 + 0.2316419 * \<bar>x\<bar>);
              d = 0.3989423 * exp (- x * x / 2);
              prob = d * t * (0.3193815 + t * (- 0.3565638 + t * (1.781478 + t * (- 1.821256 + t * 1.330274))))
          in if x > 0 then 1 - prob else prob)"
proof -
  have "0 \<le> 0.2316419 * \<bar>x\<bar>" by simp
  then have den: "1 + 0.2316419 * \<bar>x\<bar> \<noteq> 0" by linarith
  show ?thesis
    using den by (simp add: normalCDF_def Let_def)
qed

lemma normalCDF_Num: "normalCDF (Num x) = Num (the_num (normalCDF (Num x)))"
  by (simp only: normalCDF_Num_eq jsnum.sel)

lemma normalCDF_value:
  "the_num (normalCDF (Num x)) =
     (let t = 1 / (1 + 0.2316419 * \<bar>x\<bar>);
          d = 0.3989423 * exp (- x * x / 2);
          prob = d * t * (0.3193815 + t * (- 0.3565638 + t * (1.781478 + t * (- 1.821256 + t * 1.330274))))
      in if x > 0 then 1 - prob else prob)"
  by (simp only: normalCDF_Num_eq jsnum.sel)

lemma normalCDF_NaN: "normalCDF NaN = NaN"
  by (simp add: normalCDF_def Let_def)

lemma normalCDF_reflect: "x \<noteq> 0 \<Longrightarrow> the_num (normalCDF (Num x)) + the_num (normalCDF (Num (- x))) = 1"
  by (cases "x > 0") (simp_all add: normalCDF_value Let_def)

lemma normalCDF_zero: "the_num (normalCDF (Num 0)) = 0.3989423 * 1.2533137"
  by (simp add: normalCDF_value Let_def)

section \<open>Near-expiry behaviour of the pricer\<close>

lemma blackScholes_tiny_T:
  assumes "0 < S" "0 < K" "0 < v" "0 < T" "T < 1 / 100000"
  shows "blackScholes type (Num S) (Num K) (Num T) r (Num v) =
           (if type = ''call'' then Inr (Num (max 0 (S - K))) else Inr (Num (max 0 (K - S))))"
  using assms by (simp add: blackScholes_def)

text \<open>
  C7. For positive spot, strike and volatility and every time to expiry \<open>T\<close> with
  \<open>0 < T < 1/100000\<close>, \<open>blackScholes\<close> returns the intrinsic value: \<open>max 0 (S - K)\<close> for a
  call and \<open>max 0 (K - S)\<close> for a put. Hence the returned price converges to the
  intrinsic value as \<open>T\<close> tends to 0 from the right.
\<close>

theorem blackScholes_near_expiry_intrinsic:
  assumes "0 < S" "0 < K" "0 < v"
  shows "(\<forall>T. 0 < T \<and> T < 1 / 100000 \<longrightarrow>
            blackScholes ''call'' (Num S) (Num K) (Num T) r (Num v) = Inr (Num (max 0 (S - K))) \<and>
            blackScholes ''put'' (Num S) (Num K) (Num T) r (Num v) = Inr (Num (max 0 (K - S)))) \<and>
         ((\<lambda>T. the_num (projr (blackScholes ''call'' (Num S) (Num K) (Num T) r (Num v))))
            \<longlongrightarrow> max 0 (S - K)) (at_right 0) \<and>
         ((\<lambda>T. the_num (projr (blackScholes ''put'' (Num S) (Num K) (Num T) r (Num v))))
            \<longlongrightarrow> max 0 (K - S)) (at_right 0)"
proof -
  have tiny: "blackScholes ''call'' (Num S) (Num K) (Num T) r (Num v) = Inr (Num (max 0 (S - K))) \<and>
              blackScholes ''put'' (Num S) (Num K) (Num T) r (Num v) = Inr (Num (max 0 (K - S)))"
    if "0 < T" "T < 1 / 100000" for T
    using blackScholes_tiny_T [OF assms that] by simp
  have ev: "eventually (\<lambda>T::real. 0 < T \<and> T < 1 / 100000) (at_right 0)"
    unfolding eventually_at_right_field by (rule exI [of _ "1 / 100000"]) simp
  have "eventually (\<lambda>T. the_num (projr (blackScholes ''call'' (Num S) (Num K) (Num T) r (Num v)))
          = max 0 (S - K)) (at_right 0)"
    by (rule eventually_mono [OF ev]) (simp add: tiny)
  then have lim_call: "((\<lambda>T. the_num (projr (blackScholes ''call'' (Num S) (Num K) (Num T) r (Num v))))
            \<longlongrightarrow> max 0 (S - K)) (at_right 0)"
    by (rule tendsto_eventually)
  have "eventually (\<lambda>T. the_num (projr (blackScholes ''put'' (Num S) (Num K) (Num T) r (Num v)))
          = max 0 (K - S)) (at_right 0)"
    by (rule eventually_mono [OF ev]) (simp add: tiny)
  then have lim_put: "((\<lambda>T. the_num (projr (blackScholes ''put'' (Num S) (Num K) (Num T) r (Num v))))
            \<longlongrightarrow> max 0 (K - S)) (at_right 0)"
    by (rule tendsto_eventually)
  from tiny lim_call lim_put show ?thesis by blast
qed

theorem blackScholes_near_expiry_intrinsic_witness:
  "(0::real) < 105 \<and> (0::real) < 100 \<and> (0::real) < 3 / 10 \<and>
   (0::real) < 1 / 200000 \<and> (1::real) / 200000 < 1 / 100000 \<and>
   blackScholes ''call'' (Num 105) (Num 100) (Num (1 / 200000)) (Num (7 / 200)) (Num (3 / 10)) = Inr (Num 5) \<and>
   blackScholes ''put'' (Num 105) (Num 100) (Num (1 / 200000)) (Num (7 / 200)) (Num (3 / 10)) = Inr (Num 0)"
  using blackScholes_near_expiry_intrinsic [of 105 100 "3 / 10" "Num (7 / 200)"]
  by simp

text \<open>
  C10, as stated, fails when \<open>T\<close> is \<open>NaN\<close>, as for an omitted argument: both guards
  \<open>T <= 0\<close> and \<open>T < 0.00001\<close> are false, the formula branch is reached, and a kind
  that is neither \<open>''call''\<close> nor \<open>''put''\<close> raises the invalid-option-type error although
  \<open>T \<ge> 0.00001\<close> does not hold.
\<close>

theorem invalid_kind_counterexample:
  "blackScholes ''straddle'' (Num 100) (Num 100) NaN (Num (7 / 200)) (Num (3 / 10)) = Inl InvalidOptionType \<and>
   \<not> Num (1 / 100000) \<le> NaN"
  by (simp add: blackScholes_def Let_def)

text \<open>
  C10, amended. For positive spot, strike and volatility and \<open>0 < T < 1/100000\<close>, every
  kind string other than \<open>''call''\<close>, valid or not, yields the put intrinsic value
  \<open>max 0 (K - S)\<close>. The invalid-option-type error is returned only when \<open>T\<close> is not
  below \<open>1/100000\<close>, that is when \<open>T \<ge> 1/100000\<close> or \<open>T\<close> is \<open>NaN\<close>; there, with positive
  spot, strike and volatility, a kind that is neither \<open>''call''\<close> nor \<open>''put''\<close> does
  raise it.
\<close>

theorem blackScholes_invalid_kind_near_expiry:
  "(Num 0 < S \<and> Num 0 < K \<and> Num 0 < v \<and> Num 0 < T \<and> T < Num (1 / 100000) \<and> type \<noteq> ''call'' \<longrightarrow>
      blackScholes type S K T r v = Inr (Math_max (Num 0) (K - S))) \<and>
   (blackScholes type S K T r v = Inl InvalidOptionType \<longrightarrow> T = NaN \<or> Num (1 / 100000) \<le> T) \<and>
   (Num 0 < S \<and> Num 0 < K \<and> Num 0 < v \<and> (T = NaN \<or> Num (1 / 100000) \<le> T) \<and>
      type \<noteq> ''call'' \<and> type \<noteq> ''put'' \<longrightarrow>
      blackScholes type S K T r v = Inl InvalidOptionType)"
proof (intro conjI impI)
  assume a: "Num 0 < S \<and> Num 0 < K \<and> Num 0 < v \<and> Num 0 < T \<and> T < Num (1 / 100000) \<and> type \<noteq> ''call''"
  then obtain s k w t where "S = Num s" "K = Num k" "v = Num w" "T = Num t"
    by (auto simp: jsnum_less_Num)
  with a show "blackScholes type S K T r v = Inr (Math_max (Num 0) (K - S))"
    by (simp add: blackScholes_def)
next
  assume e: "blackScholes type S K T r v = Inl InvalidOptionType"
  show "T = NaN \<or> Num (1 / 100000) \<le> T"
  proof (cases T)
    case NaN
    then show ?thesis by simp
  next
    case (Num t)
    with e show ?thesis
      by (auto simp: blackScholes_def Let_def split: if_splits)
  qed
next
  assume a: "Num 0 < S \<and> Num 0 < K \<and> Num 0 < v \<and> (T = NaN \<or> Num (1 / 100000) \<le> T) \<and>
      type \<noteq> ''call'' \<and> type \<noteq> ''put''"
  then obtain s k w where n: "S = Num s" "K = Num k" "v = Num w"
    by (auto simp: jsnum_less_Num)
  show "blackScholes type S K T r v = Inl InvalidOptionType"
  proof (cases T)
    case NaN
    with a n show ?thesis by (simp add: blackScholes_def Let_def)
  next
    case (Num t)
    with a n show ?thesis by (simp add: blackScholes_def Let_def)
  qed
qed

theorem blackScholes_invalid_kind_near_expiry_witness:
  "blackScholes ''straddle'' (Num 95) (Num 100) (Num (1 / 200000)) (Num (7 / 200)) (Num (3 / 10)) = Inr (Num 5) \<and>
   blackScholes ''straddle'' (Num 95) (Num 100) (Num 1) (Num (7 / 200)) (Num (3 / 10)) = Inl InvalidOptionType \<and>
   Num (1 / 100000) \<le> Num 1 \<and>
   blackScholes ''straddle'' (Num 95) (Num 100) NaN (Num (7 / 200)) (Num (3 / 10)) = Inl InvalidOptionType"
  using blackScholes_invalid_kind_near_expiry
      [of "Num 95" "Num 100" "Num (3 / 10)" "Num (1 / 200000)" "''straddle''" "Num (7 / 200)"]
    blackScholes_invalid_kind_near_expiry
      [of "Num 95" "Num 100" "Num (3 / 10)" "Num 1" "''straddle''" "Num (7 / 200)"]
    blackScholes_invalid_kind_near_expiry
      [of "Num 95" "Num 100" "Num (3 / 10)" NaN "''straddle''" "Num (7 / 200)"]
  by simp

section \<open>Put-call parity\<close>

lemma d1_Num:
  assumes "0 < S" "0 < K" "0 < T" "0 < v"
  shows "(Math_log (Num S / Num K) + (Num r + Num v * Num v / Num 2) * Num T) / (Num v * Math_sqrt (Num T))
           = Num ((ln (S / K) + (r + v * v / 2) * T) / (v * sqrt T))"
  using assms by simp

lemma blackScholes_formula_kind:
  assumes "0 < S" "0 < K" "0 < v" "1 / 100000 \<le> T"
  shows "blackScholes type (Num S) (Num K) (Num T) (Num r) (Num v) =
           (if type = ''call'' then
              Inr (Num (S * the_num (normalCDF (Num ((ln (S / K) + (r + v * v / 2) * T) / (v * sqrt T))))
                - K * exp (- r * T) * the_num (normalCDF (Num ((ln (S / K) + (r + v * v / 2) * T) / (v * sqrt T) - v * sqrt T)))))
            else if type = ''put'' then
              Inr (Num (K * exp (- r * T) * the_num (normalCDF (Num (- ((ln (S / K) + (r + v * v / 2) * T) / (v * sqrt T) - v * sqrt T))))
                - S * the_num (normalCDF (Num (- ((ln (S / K) + (r + v * v / 2) * T) / (v * sqrt T)))))))
            else Inl InvalidOptionType)"
proof -
  have T: "0 < T" using assms(4) by simp
  define d1 where "d1 = (ln (S / K) + (r + v * v / 2) * T) / (v * sqrt T)"
  define p1 where "p1 = the_num (normalCDF (Num d1))"
  define p2 where "p2 = the_num (normalCDF (Num (d1 - v * sqrt T)))"
  define p3 where "p3 = the_num (normalCDF (Num (- (d1 - v * sqrt T))))"
  define p4 where "p4 = the_num (normalCDF (Num (- d1)))"
  have d1: "(Math_log (Num S / Num K) + (Num r + Num v * Num v / Num 2) * Num T) / (Num v * Math_sqrt (Num T)) = Num d1"
    unfolding d1_def using assms(1,2) T assms(3) by (rule d1_Num)
  have sq: "Math_sqrt (Num T) = Num (sqrt T)" using T by simp
  have n1: "normalCDF (Num d1) = Num p1" unfolding p1_def by (rule normalCDF_Num)
  have n2: "normalCDF (Num (d1 - v * sqrt T)) = Num p2" unfolding p2_def by (rule normalCDF_Num)
  have n3: "normalCDF (Num (- (d1 - v * sqrt T))) = Num p3" unfolding p3_def by (rule normalCDF_Num)
  have n4: "normalCDF (Num (- d1)) = Num p4" unfolding p4_def by (rule normalCDF_Num)
  have guards: "\<not> Num S \<le> Num 0" "\<not> Num K \<le> Num 0" "\<not> Num T \<le> Num 0" "\<not> Num v \<le> Num 0"
    "\<not> Num T < Num 0.00001"
    using assms T by simp_all
  have "blackScholes type (Num S) (Num K) (Num T) (Num r) (Num v) =
          (if type = ''call'' then Inr (Num S * normalCDF (Num d1)
               - Num K * Math_exp (- Num r * Num T) * normalCDF (Num d1 - Num v * Math_sqrt (Num T)))
           else if type = ''put'' then Inr (Num K * Math_exp (- Num r * Num T) * normalCDF (- (Num d1 - Num v * Math_sqrt (Num T)))
               - Num S * normalCDF (- Num d1))
           else Inl InvalidOptionType)"
    unfolding blackScholes_def Let_def by (simp only: guards if_False d1)
  also have "\<dots> = (if type = ''call'' then Inr (Num (S * p1 - K * exp (- r * T) * p2))
           else if type = ''put'' then Inr (Num (K * exp (- r * T) * p3 - S * p4))
           else Inl InvalidOptionType)"
    by (simp only: sq jsnum_times jsnum_minus jsnum_uminus Math_exp.simps n1 n2 n3 n4)
  finally show ?thesis
    unfolding p1_def p2_def p3_def p4_def d1_def .
qed

lemma blackScholes_formula:
  assumes "0 < S" "0 < K" "0 < v" "1 / 100000 \<le> T"
  shows "blackScholes ''call'' (Num S) (Num K) (Num T) (Num r) (Num v) =
           Inr (Num (S * the_num (normalCDF (Num ((ln (S / K) + (r + v * v / 2) * T) / (v * sqrt T))))
                - K * exp (- r * T) * the_num (normalCDF (Num ((ln (S / K) + (r + v * v / 2) * T) / (v * sqrt T) - v * sqrt T)))))"
    and "blackScholes ''put'' (Num S) (Num K) (Num T) (Num r) (Num v) =
           Inr (Num (K * exp (- r * T) * the_num (normalCDF (Num (- ((ln (S / K) + (r + v * v / 2) * T) / (v * sqrt T) - v * sqrt T))))
                - S * the_num (normalCDF (Num (- ((ln (S / K) + (r + v * v / 2) * T) / (v * sqrt T)))))))"
  using blackScholes_formula_kind [OF assms, of "''call''" r] blackScholes_formula_kind [OF assms, of "''put''" r]
  by simp_all

lemma exp_neg_upper: "0 < x \<Longrightarrow> exp (- x) \<le> 1 / (1 + x)" for x :: real
proof -
  assume "0 < x"
  have "1 + x \<le> exp x" by (rule exp_ge_add_one_self)
  then have "1 / exp x \<le> 1 / (1 + x)"
    using \<open>0 < x\<close> by (intro divide_left_mono) (simp_all add: add_pos_pos)
  then show ?thesis by (simp add: exp_minus inverse_eq_divide)
qed

lemma blackScholes_call_d2_zero:
  "blackScholes ''call'' (Num 100) (Num 100) (Num 1) (Num (1 / 8)) (Num (1 / 2)) =
     Inr (Num (100 * the_num (normalCDF (Num (1 / 2))) - 100 * exp (- (1 / 8)) * the_num (normalCDF (Num 0))))"
  using blackScholes_formula(1) [of 100 100 "1 / 2" 1 "1 / 8"] by simp

lemma blackScholes_put_d2_zero:
  "blackScholes ''put'' (Num 100) (Num 100) (Num 1) (Num (1 / 8)) (Num (1 / 2)) =
     Inr (Num (100 * exp (- (1 / 8)) * the_num (normalCDF (Num 0)) - 100 * the_num (normalCDF (Num (- (1 / 2))))))"
  using blackScholes_formula(2) [of 100 100 "1 / 2" 1 "1 / 8"] by simp

lemma parity_gap_d2_zero:
  "\<not> \<bar>the_num (projr (blackScholes ''call'' (Num 100) (Num 100) (Num 1) (Num (1 / 8)) (Num (1 / 2))))
       - the_num (projr (blackScholes ''put'' (Num 100) (Num 100) (Num 1) (Num (1 / 8)) (Num (1 / 2))))
       - (100 - 100 * exp (- (1 / 8) * 1))\<bar> \<le> 1 / 1000000"
proof -
  define n0 where "n0 = the_num (normalCDF (Num 0))"
  have half: "the_num (normalCDF (Num (1 / 2))) + the_num (normalCDF (Num (- (1 / 2)))) = 1"
    by (rule normalCDF_reflect) simp
  have "the_num (projr (blackScholes ''call'' (Num 100) (Num 100) (Num 1) (Num (1 / 8)) (Num (1 / 2))))
        - the_num (projr (blackScholes ''put'' (Num 100) (Num 100) (Num 1) (Num (1 / 8)) (Num (1 / 2))))
        - (100 - 100 * exp (- (1 / 8) * 1))
      = 100 * (the_num (normalCDF (Num (1 / 2))) + the_num (normalCDF (Num (- (1 / 2))))) - 100
        + 100 * exp (- (1 / 8)) * (1 - 2 * n0)"
    unfolding n0_def by (simp add: blackScholes_call_d2_zero blackScholes_put_d2_zero algebra_simps)
  also have "\<dots> = 100 * exp (- (1 / 8)) * (1 - 2 * n0)"
    by (simp add: half)
  finally have eq: "the_num (projr (blackScholes ''call'' (Num 100) (Num 100) (Num 1) (Num (1 / 8)) (Num (1 / 2))))
        - the_num (projr (blackScholes ''put'' (Num 100) (Num 100) (Num 1) (Num (1 / 8)) (Num (1 / 2))))
        - (100 - 100 * exp (- (1 / 8) * 1)) = 100 * exp (- (1 / 8)) * (1 - 2 * n0)" .
  have pos: "(0::real) < 1 - 2 * n0"
    unfolding n0_def by (simp add: normalCDF_zero)
  have low: "7 / 8 \<le> exp (- (1 / 8) :: real)"
    using exp_ge_add_one_self [of "- (1 / 8) :: real"] by simp
  have "100 * (7 / 8) * (1 - 2 * n0) \<le> 100 * exp (- (1 / 8)) * (1 - 2 * n0)"
    using low pos by (intro mult_right_mono mult_left_mono) simp_all
  moreover have "1 / 1000000 < 100 * (7 / 8) * (1 - 2 * n0)"
    unfolding n0_def by (simp add: normalCDF_zero)
  ultimately show ?thesis
    unfolding eq by linarith
qed

lemma parity_gap_near_expiry:
  "\<not> \<bar>the_num (projr (blackScholes ''call'' (Num 100) (Num 100) (Num (1 / 200000)) (Num (7 / 200)) (Num (3 / 10))))
       - the_num (projr (blackScholes ''put'' (Num 100) (Num 100) (Num (1 / 200000)) (Num (7 / 200)) (Num (3 / 10))))
       - (100 - 100 * exp (- (7 / 200) * (1 / 200000)))\<bar> \<le> 1 / 1000000"
proof -
  have "exp (- (7 / 40000000) :: real) \<le> 1 / (1 + 7 / 40000000)"
    by (rule exp_neg_upper) simp
  then have "exp (- (7 / 40000000) :: real) \<le> 40000000 / 40000007" by simp
  then show ?thesis
    by (simp add: blackScholes_tiny_T)
qed


lemma normalCDF_pair:
  "0 \<le> 1 - (the_num (normalCDF (Num x)) + the_num (normalCDF (Num (- x)))) \<and>
   1 - (the_num (normalCDF (Num x)) + the_num (normalCDF (Num (- x)))) \<le> 3 / 10 ^ 7"
proof (cases "x = 0")
  case True
  then show ?thesis by (simp add: normalCDF_zero)
next
  case False
  then show ?thesis by (simp add: normalCDF_reflect)
qed



section \<open>Strike ladder\<close>

lemma round_101: "round (101 / 5 :: real) = 20"
  by (simp add: round_def)

lemma length_routeStrikes: "length (routeStrikes currentPrice) = 11"
  by (simp add: routeStrikes_def Let_def)

lemma length_generateStrikes_even:
  "0 \<le> n \<Longrightarrow> length (generateStrikes currentPrice (2 * n) strikePriceStep) = nat (2 * n + 1)"
  by (simp add: generateStrikes_def Let_def)

lemma generateStrikes_step_zero:
  "K \<in> set (generateStrikes currentPrice strikePriceCount (Num 0)) \<Longrightarrow> K = NaN"
  by (cases currentPrice) (auto simp: generateStrikes_def Let_def)

text \<open>
  C2. The claim expects ten strikes, 125 down to 80, for spot 101, step 5 and count
  10. The loop runs \<open>i\<close> from \<open>- floor (count / 2)\<close> to \<open>floor (count / 2)\<close> inclusive, so
  the code builds eleven strikes, 125 down to 75, in the handler (sorted descending)
  and in \<open>generateOptionChain\<close> (ascending, never sorted).
\<close>

theorem strike_ladder_spot_101:
  "routeStrikes 101 = [125, 120, 115, 110, 105, 100, 95, 90, 85, 80, 75] \<and>
   length (routeStrikes 101) = 11 \<and>
   generateStrikes (Num 101) 10 (Num 5) = map Num [75, 80, 85, 90, 95, 100, 105, 110, 115, 120, 125]"
  by (simp add: routeStrikes_def generateStrikes_def Let_def round_101 upto.simps)

section \<open>Historical volatility\<close>

lemma calculateHistoricalVolatility_period_unused:
  "calculateHistoricalVolatility prices period = calculateHistoricalVolatility prices period'"
  by (simp add: calculateHistoricalVolatility_def Let_def split: option.splits)

lemma historicalVolatility_old_close:
  "calculateHistoricalVolatility (Some [1, 2, 2]) 1 = Inr ([], ln 2 / 2 * sqrt 365)"
proof -
  have rl: "returnsLoop [1, 2, 2] = ([], [ln 2, 0])"
    by simp
  have var: "((ln 2 - ln 2 / 2) ^ 2 + (ln 2 / 2) ^ 2) / 2 = (ln 2 / 2 :: real) ^ 2"
    by (simp add: power2_eq_square field_simps)
  have "sqrt (((ln 2 - ln 2 / 2) ^ 2 + (ln 2 / 2) ^ 2) / 2) = ln 2 / (2::real)"
    unfolding var by simp
  then show ?thesis
    by (simp add: calculateHistoricalVolatility_def Let_def DAYS_PER_YEAR_def rl)
qed

text \<open>
  C3. The claim says that only the most recent \<open>min window (n - 1)\<close> points enter the
  result. The code computes \<open>actualPeriod\<close> and never reads it: every adjacent pair of
  the series enters the returns. With window 1 and three closes, the oldest close,
  outside the window, changes the result from 0 to \<open>ln 2 / 2 * sqrt 365\<close>.
\<close>

theorem historicalVolatility_ignores_window:
  "calculateHistoricalVolatility (Some [1, 2, 2]) 1 = Inr ([], ln 2 / 2 * sqrt 365) \<and>
   calculateHistoricalVolatility (Some [2, 2, 2]) 1 = Inr ([], 0) \<and>
   ln 2 / 2 * sqrt 365 \<noteq> (0::real)"
proof (intro conjI)
  show "calculateHistoricalVolatility (Some [1, 2, 2]) 1 = Inr ([], ln 2 / 2 * sqrt 365)"
    by (rule historicalVolatility_old_close)
  show "calculateHistoricalVolatility (Some [2, 2, 2]) 1 = Inr ([], 0)"
    by (simp add: calculateHistoricalVolatility_def Let_def DAYS_PER_YEAR_def)
  show "ln 2 / 2 * sqrt 365 \<noteq> (0::real)"
    by simp
qed

lemma returnsLoop_few_usable:
  "length (filter (\<lambda>p. 0 < p) ps) < 2 \<Longrightarrow> snd (returnsLoop ps) = []"
proof (induction ps rule: returnsLoop.induct)
  case (1 p q ps)
  show ?case
  proof (cases "q \<le> 0 \<or> p \<le> 0")
    case True
    have "length (filter (\<lambda>p. 0 < p) (q # ps)) \<le> length (filter (\<lambda>p. 0 < p) (p # q # ps))"
      by simp
    with "1.prems" have "length (filter (\<lambda>p. 0 < p) (q # ps)) < 2" by linarith
    then have "snd (returnsLoop (q # ps)) = []" by (rule "1.IH")
    with True show ?thesis by (simp add: split_beta)
  next
    case False
    with "1.prems" show ?thesis by simp
  qed
qed simp_all

lemma calculateHistoricalVolatility_few_usable:
  assumes "length (filter (\<lambda>p. 0 < p) ps) < 2"
  shows "\<exists>warns. calculateHistoricalVolatility (Some ps) period = Inr (warns, 0.3) \<and> warns \<noteq> []"
proof (cases "length ps < 2")
  case True
  then show ?thesis by (simp add: calculateHistoricalVolatility_def)
next
  case False
  have "snd (returnsLoop ps) = []" using assms by (rule returnsLoop_few_usable)
  with False show ?thesis
    by (simp add: calculateHistoricalVolatility_def split_beta)
qed

text \<open>
  C4, as stated, fails when the handler read a single row: it has then one usable
  close at most, skips the volatility computation without logging, and prices with
  its own default 0.25, not 0.30.
\<close>

theorem volatility_default_counterexample:
  "routeVolatility [100] = 0.25 \<and> routeVolatility [100] \<noteq> 0.3"
  by (simp add: routeVolatility_def)

text \<open>
  C4, amended. When fewer than 2 positive closes remain, \<open>calculateHistoricalVolatility\<close>
  raises no error, logs a warning and returns its own default 0.30; the handler
  prices with 0.30 when it read at least two rows, and with its own default 0.25
  when it read fewer.
\<close>

theorem volatility_default_few_usable:
  assumes "length (filter (\<lambda>p. 0 < p) ps) < 2"
  shows "(\<exists>warns. calculateHistoricalVolatility (Some ps) period = Inr (warns, 0.3) \<and> warns \<noteq> []) \<and>
         (2 \<le> length ps \<longrightarrow> routeVolatility ps = 0.3) \<and>
         (length ps < 2 \<longrightarrow> routeVolatility ps = 0.25)"
proof -
  obtain warns where w: "calculateHistoricalVolatility (Some ps) 30 = Inr (warns, 0.3)"
    using calculateHistoricalVolatility_few_usable [OF assms, of 30] by blast
  have "routeVolatility ps = 0.3" if "2 \<le> length ps"
    using that w by (simp add: routeVolatility_def)
  moreover have "routeVolatility ps = 0.25" if "length ps < 2"
    using that by (simp add: routeVolatility_def)
  ultimately show ?thesis
    using calculateHistoricalVolatility_few_usable [OF assms, of period] by blast
qed

theorem volatility_default_few_usable_witness:
  "length (filter (\<lambda>p. 0 < p) [100, 0, - 1 :: real]) < 2 \<and>
   routeVolatility [100, 0, - 1] = 0.3 \<and>
   (\<exists>warns. calculateHistoricalVolatility (Some [100, 0, - 1]) 30 = Inr (warns, 0.3) \<and> warns \<noteq> [])"
  using volatility_default_few_usable [of "[100, 0, - 1]" 30] by simp

section \<open>Expiry ladder\<close>

lemma routeDays_future:
  assumes "today < targetDate"
  shows "routeDaysToExpiration (Some (DateMs targetDate)) today =
           sort [\<lceil>real_of_int (targetDate - today) / 86400000\<rceil>, 30, 60, 90, 180]"
  using assms by (simp add: routeDaysToExpiration_def Let_def)

lemma diffDays_pos:
  assumes "today < targetDate"
  shows "1 \<le> \<lceil>real_of_int (targetDate - today) / 86400000\<rceil>"
proof -
  have "0 < real_of_int (targetDate - today) / 86400000"
    using assms by simp
  then have "0 < \<lceil>real_of_int (targetDate - today) / 86400000\<rceil>"
    by (simp only: zero_less_ceiling)
  then show ?thesis by simp
qed

text \<open>
  C8. For a target date strictly after \<open>today\<close> the ladder is sorted ascending, has
  five entries and holds the day count \<open>ceiling ((targetDate - today) / 86400000)\<close>,
  which is at least 1, in place of 0; for a date 45 days out it is
  \<open>[30, 45, 60, 90, 180]\<close>. For a date that is not in the future, an invalid date or
  no date, the default ladder is returned unchanged; no case of the ladder
  computation raises.
\<close>

theorem expiry_ladder_target_date:
  "(today < targetDate \<longrightarrow>
      1 \<le> \<lceil>real_of_int (targetDate - today) / 86400000\<rceil> \<and>
      sorted (routeDaysToExpiration (Some (DateMs targetDate)) today) \<and>
      length (routeDaysToExpiration (Some (DateMs targetDate)) today) = 5 \<and>
      set (routeDaysToExpiration (Some (DateMs targetDate)) today) =
        {\<lceil>real_of_int (targetDate - today) / 86400000\<rceil>, 30, 60, 90, 180}) \<and>
   (44 * 86400000 < targetDate - today \<and> targetDate - today \<le> 45 * 86400000 \<longrightarrow>
      routeDaysToExpiration (Some (DateMs targetDate)) today = [30, 45, 60, 90, 180]) \<and>
   (targetDate \<le> today \<longrightarrow>
      routeDaysToExpiration (Some (DateMs targetDate)) today = [0, 30, 60, 90, 180]) \<and>
   routeDaysToExpiration (Some InvalidDate) today = [0, 30, 60, 90, 180] \<and>
   routeDaysToExpiration None today = [0, 30, 60, 90, 180]"
proof (intro conjI impI)
  assume f: "today < targetDate"
  show "1 \<le> \<lceil>real_of_int (targetDate - today) / 86400000\<rceil>"
    using f by (rule diffDays_pos)
  show "sorted (routeDaysToExpiration (Some (DateMs targetDate)) today)"
    unfolding routeDays_future [OF f] by (rule sorted_sort)
  show "length (routeDaysToExpiration (Some (DateMs targetDate)) today) = 5"
    unfolding routeDays_future [OF f] by (simp only: length_sort) simp
  show "set (routeDaysToExpiration (Some (DateMs targetDate)) today) =
        {\<lceil>real_of_int (targetDate - today) / 86400000\<rceil>, 30, 60, 90, 180}"
    unfolding routeDays_future [OF f] by (simp only: set_sort) simp
next
  assume a: "44 * 86400000 < targetDate - today \<and> targetDate - today \<le> 45 * 86400000"
  then have f: "today < targetDate" by simp
  have "\<lceil>real_of_int (targetDate - today) / 86400000\<rceil> = 45"
  proof (rule ceiling_unique)
    have "real_of_int (44 * 86400000) < real_of_int (targetDate - today)"
      using a by (simp only: of_int_less_iff)
    then show "real_of_int 45 - 1 < real_of_int (targetDate - today) / 86400000"
      by (simp add: field_simps)
    have "real_of_int (targetDate - today) \<le> real_of_int (45 * 86400000)"
      using a by (simp only: of_int_le_iff)
    then show "real_of_int (targetDate - today) / 86400000 \<le> real_of_int 45"
      by (simp add: field_simps)
  qed
  then show "routeDaysToExpiration (Some (DateMs targetDate)) today = [30, 45, 60, 90, 180]"
    unfolding routeDays_future [OF f] by simp
qed (simp_all add: routeDaysToExpiration_def)

theorem expiry_ladder_target_date_witness:
  "(0::int) < 3888000000 \<and>
   routeDaysToExpiration (Some (DateMs 3888000000)) 0 = [30, 45, 60, 90, 180] \<and>
   routeDaysToExpiration (Some (DateMs 0)) 0 = [0, 30, 60, 90, 180]"
  using expiry_ladder_target_date [of 0 3888000000] expiry_ladder_target_date [of 0 0]
  by simp

section \<open>Retry with backoff\<close>

lemma retryLoop_all_fail:
  assumes "\<forall>k \<le> maxRetries. isl (fn k)"
    and "retries \<le> maxRetries"
  shows "snd (retryLoop fn maxRetries initialDelay retries) = fn maxRetries \<and>
         fst (retryLoop fn maxRetries initialDelay retries) =
           map (\<lambda>k. if isRateLimit (projl (fn k)) then initialDelay * 2 ^ k * 2 else initialDelay * 2 ^ k)
             [retries ..< maxRetries]"
  using assms
proof (induction fn maxRetries initialDelay retries rule: retryLoop.induct)
  case (1 fn maxRetries initialDelay retries)
  from "1.prems" obtain err where err: "fn retries = Inl err"
    by (metis isl_def)
  show ?case
  proof (cases "retries \<ge> maxRetries")
    case True
    with "1.prems" have "retries = maxRetries" by simp
    then show ?thesis using err by (simp add: retryLoop.simps [of fn maxRetries initialDelay maxRetries])
  next
    case False
    then have lt: "retries < maxRetries" by simp
    have IH: "snd (retryLoop fn maxRetries initialDelay (retries + 1)) = fn maxRetries \<and>
         fst (retryLoop fn maxRetries initialDelay (retries + 1)) =
           map (\<lambda>k. if isRateLimit (projl (fn k)) then initialDelay * 2 ^ k * 2 else initialDelay * 2 ^ k)
             [retries + 1 ..< maxRetries]"
      using "1.IH" [OF err False refl] "1.prems" lt by simp
    have up: "[retries ..< maxRetries] = retries # [retries + 1 ..< maxRetries]"
      using lt by (simp add: upt_conv_Cons)
    show ?thesis
      using IH err False
      by (subst (1 2) retryLoop.simps) (simp add: up split_beta Let_def)
  qed
qed

lemma upt_0_3: "[0 ..< 3] = [0, 1, 2]"
  by (simp add: upt_rec)

text \<open>
  C9. With 3 retries starting at 1000 ms, when every attempt fails the delays waited
  are 1000, 2000, 4000 ms for errors that are not rate limits and 2000, 4000, 8000 ms
  for rate-limit errors; when every attempt up to \<open>maxRetries\<close> fails, the error of the
  last attempt is thrown to the caller after \<open>maxRetries\<close> delays.
\<close>

theorem retryWithBackoff_delays:
  "((\<forall>k \<le> 3. \<exists>e. fn k = Inl e \<and> \<not> isRateLimit e) \<longrightarrow>
      retryWithBackoff fn 3 1000 = ([1000, 2000, 4000], fn 3)) \<and>
   ((\<forall>k \<le> 3. \<exists>e. fn k = Inl e \<and> isRateLimit e) \<longrightarrow>
      retryWithBackoff fn 3 1000 = ([2000, 4000, 8000], fn 3)) \<and>
   ((\<forall>k \<le> maxRetries. isl (fn k)) \<longrightarrow>
      snd (retryWithBackoff fn maxRetries initialDelay) = fn maxRetries \<and>
      length (fst (retryWithBackoff fn maxRetries initialDelay)) = maxRetries)"
proof (intro conjI impI)
  assume a: "\<forall>k \<le> 3. \<exists>e. fn k = Inl e \<and> \<not> isRateLimit e"
  then have fails: "\<forall>k \<le> 3. isl (fn k)" by force
  have nr: "\<not> isRateLimit (projl (fn k))" if "k \<le> 3" for k
    using a that by force
  have "fst (retryLoop fn 3 1000 0) = [1000, 2000, 4000]"
    using retryLoop_all_fail [OF fails, of 0 1000] nr by (simp add: upt_0_3)
  moreover have "snd (retryLoop fn 3 1000 0) = fn 3"
    using retryLoop_all_fail [OF fails, of 0 1000] by simp
  ultimately show "retryWithBackoff fn 3 1000 = ([1000, 2000, 4000], fn 3)"
    unfolding retryWithBackoff_def by (simp add: prod_eq_iff)
next
  assume a: "\<forall>k \<le> 3. \<exists>e. fn k = Inl e \<and> isRateLimit e"
  then have fails: "\<forall>k \<le> 3. isl (fn k)" by force
  have nr: "isRateLimit (projl (fn k))" if "k \<le> 3" for k
    using a that by force
  have "fst (retryLoop fn 3 1000 0) = [2000, 4000, 8000]"
    using retryLoop_all_fail [OF fails, of 0 1000] nr by (simp add: upt_0_3)
  moreover have "snd (retryLoop fn 3 1000 0) = fn 3"
    using retryLoop_all_fail [OF fails, of 0 1000] by simp
  ultimately show "retryWithBackoff fn 3 1000 = ([2000, 4000, 8000], fn 3)"
    unfolding retryWithBackoff_def by (simp add: prod_eq_iff)
next
  assume fails: "\<forall>k \<le> maxRetries. isl (fn k)"
  show "snd (retryWithBackoff fn maxRetries initialDelay) = fn maxRetries"
    unfolding retryWithBackoff_def using retryLoop_all_fail [OF fails, of 0 initialDelay] by simp
  show "length (fst (retryWithBackoff fn maxRetries initialDelay)) = maxRetries"
    unfolding retryWithBackoff_def using retryLoop_all_fail [OF fails, of 0 initialDelay] by simp
qed

theorem retryWithBackoff_delays_witness:
  "retryWithBackoff (\<lambda>k. Inl (FetchError None) :: fetchError + unit) 3 1000
     = ([1000, 2000, 4000], Inl (FetchError None)) \<and>
   retryWithBackoff (\<lambda>k. Inl (FetchError (Some \<lparr>status = 429, data = None\<rparr>)) :: fetchError + unit) 3 1000
     = ([2000, 4000, 8000], Inl (FetchError (Some \<lparr>status = 429, data = None\<rparr>)))"
  using retryWithBackoff_delays [of "\<lambda>k. Inl (FetchError None) :: fetchError + unit" 3 1000]
    retryWithBackoff_delays [of "\<lambda>k. Inl (FetchError (Some \<lparr>status = 429, data = None\<rparr>)) :: fetchError + unit" 3 1000]
  by (simp add: isRateLimit_def)

section \<open>Range of the normal distribution approximation\<close>

lemma normalCDF_poly_bounds:
  fixes t :: real
  assumes t0: "0 \<le> t" and t1: "t \<le> 1"
  shows "0 \<le> 0.3193815 + t * (- 0.3565638 + t * (1.781478 + t * (- 1.821256 + t * 1.330274))) \<and>
         0.3193815 + t * (- 0.3565638 + t * (1.781478 + t * (- 1.821256 + t * 1.330274))) \<le> 1.7442957"
proof -
  define u where "u = t * t"
  define q where "q = 1.781478 + t * (- 1.821256 + t * 1.330274)"
  define tq where "tq = t * q"
  define m where "m = - 0.3565638 + tq"
  define tm where "tm = t * m"
  have q_lin: "q = 1.781478 - 1.821256 * t + 1.330274 * u"
    unfolding q_def u_def by (simp add: algebra_simps)
  have "(t - 0.68) ^ 2 = u - 1.36 * t + 0.4624"
    unfolding u_def by (simp add: power2_eq_square algebra_simps)
  moreover have "0 \<le> (t - 0.68) ^ 2" by simp
  ultimately have sq1: "0 \<le> u - 1.36 * t + 0.4624" by simp
  have q_lo: "1 \<le> q" unfolding q_lin using sq1 t1 by simp
  have "t * (- 1.821256 + t * 1.330274) \<le> 0"
    using t0 t1 by (intro mult_nonneg_nonpos) simp_all
  then have q_hi: "q \<le> 1.781478" unfolding q_def by simp
  have "t * 1 \<le> t * q" using q_lo t0 by (rule mult_left_mono)
  then have tq_lo: "t \<le> tq" unfolding tq_def by simp
  have "t * q \<le> 1 * 1.781478" using t1 q_hi t0 q_lo by (intro mult_mono) simp_all
  then have tq_hi: "tq \<le> 1.781478" unfolding tq_def by simp
  have m_hi: "m \<le> 1.4249142" unfolding m_def using tq_hi by simp
  have m_lo: "- 0.3565638 + t \<le> m" unfolding m_def using tq_lo by simp
  have "t * (- 0.3565638 + t) \<le> t * m" using m_lo t0 by (rule mult_left_mono)
  moreover have "t * (- 0.3565638 + t) = u - 0.3565638 * t"
    unfolding u_def by (simp add: algebra_simps)
  ultimately have tm_lo: "u - 0.3565638 * t \<le> tm" unfolding tm_def by simp
  have "(t - 0.178) ^ 2 = u - 0.356 * t + 0.031684"
    unfolding u_def by (simp add: power2_eq_square algebra_simps)
  moreover have "0 \<le> (t - 0.178) ^ 2" by simp
  ultimately have sq2: "0 \<le> u - 0.356 * t + 0.031684" by simp
  have lo: "0 \<le> 0.3193815 + tm" using tm_lo sq2 t1 by simp
  have tm_hi: "tm \<le> 1.4249142"
  proof (cases "0 \<le> m")
    case True
    then have "t * m \<le> 1 * m" using t1 by (intro mult_right_mono)
    then show ?thesis unfolding tm_def using m_hi by simp
  next
    case False
    then have "t * m \<le> 0" using t0 by (intro mult_nonneg_nonpos) simp_all
    then show ?thesis unfolding tm_def by simp
  qed
  then have hi: "0.3193815 + tm \<le> 1.7442957" by simp
  from lo hi show ?thesis unfolding tm_def m_def tq_def q_def by blast
qed

lemma normalCDF_range:
  "0 \<le> the_num (normalCDF (Num x)) \<and> the_num (normalCDF (Num x)) \<le> 1"
proof -
  define t where "t = 1 / (1 + 0.2316419 * \<bar>x\<bar>)"
  define p where "p = 0.3193815 + t * (- 0.3565638 + t * (1.781478 + t * (- 1.821256 + t * 1.330274)))"
  define d where "d = 0.3989423 * exp (- x * x / 2)"
  have cdf: "the_num (normalCDF (Num x)) = (if x > 0 then 1 - d * t * p else d * t * p)"
    unfolding normalCDF_value Let_def t_def p_def d_def by (rule refl)
  have den: "1 \<le> 1 + 0.2316419 * \<bar>x\<bar>" by simp
  have t0: "0 \<le> t" unfolding t_def using den by simp
  have t1: "t \<le> 1" unfolding t_def using den by (simp add: field_simps)
  have p_b: "0 \<le> p \<and> p \<le> 1.7442957"
    unfolding p_def using t0 t1 by (rule normalCDF_poly_bounds)
  have "- x * x / 2 \<le> 0" by simp
  then have "exp (- x * x / 2) \<le> 1" by (simp only: exp_le_one_iff)
  then have d1: "d \<le> 0.3989423" unfolding d_def by simp
  have d0: "0 \<le> d" unfolding d_def by simp
  have dt0: "0 \<le> d * t" using d0 t0 by simp
  have "d * t \<le> 0.3989423 * 1" using d1 t1 d0 t0 by (intro mult_mono) simp_all
  then have dt1: "d * t \<le> 0.3989423" by simp
  have lo: "0 \<le> d * t * p" using dt0 p_b by simp
  have "d * t * p \<le> 0.3989423 * 1.7442957"
    using dt1 p_b dt0 by (intro mult_mono) simp_all
  then have hi: "d * t * p \<le> 1" by simp
  from lo hi show ?thesis unfolding cdf by simp
qed

lemma normalCDF_Num_range:
  "\<exists>y. normalCDF (Num x) = Num y \<and> 0 \<le> y \<and> y \<le> 1"
  using normalCDF_Num [of x] normalCDF_range [of x] by blast

section \<open>Contracts of one strike\<close>

lemma blackScholes_isl_call:
  "isl (blackScholes ''call'' S K T r v) = (S \<le> Num 0 \<or> K \<le> Num 0 \<or> T \<le> Num 0 \<or> v \<le> Num 0)"
  by (simp add: blackScholes_def Let_def)

lemma blackScholes_isl_put:
  "isl (blackScholes ''put'' S K T r v) = (S \<le> Num 0 \<or> K \<le> Num 0 \<or> T \<le> Num 0 \<or> v \<le> Num 0)"
  by (simp add: blackScholes_def Let_def)

lemma routeStrikeContracts_failure:
  assumes "S \<le> Num 0 \<or> K \<le> Num 0 \<or> T \<le> Num 0 \<or> v \<le> Num 0"
  shows "routeStrikeContracts S r v T K = (routePlaceholder K, routePlaceholder K)"
proof -
  have "isl (blackScholes ''call'' S K T r v)"
    using assms by (simp only: blackScholes_isl_call)
  then obtain e where "blackScholes ''call'' S K T r v = Inl e"
    by (auto simp: isl_def)
  then show ?thesis by (simp add: routeStrikeContracts_def)
qed

lemma routeStrikeContracts_priced:
  assumes "0 < S" "0 < K" "0 < T" "0 < v"
  shows "\<exists>callPrice putPrice d1.
           blackScholes ''call'' (Num S) (Num K) (Num T) (Num r) (Num v) = Inr callPrice \<and>
           blackScholes ''put'' (Num S) (Num K) (Num T) (Num r) (Num v) = Inr putPrice \<and>
           d1 = (ln (S / K) + (r + v * v / 2) * T) / (v * sqrt T) \<and>
           strike (fst (routeStrikeContracts (Num S) (Num r) (Num v) (Num T) (Num K))) = Num K \<and>
           price (fst (routeStrikeContracts (Num S) (Num r) (Num v) (Num T) (Num K))) = Math_max (Num 0.01) callPrice \<and>
           delta (fst (routeStrikeContracts (Num S) (Num r) (Num v) (Num T) (Num K))) = normalCDF (Num d1) \<and>
           inTheMoney (fst (routeStrikeContracts (Num S) (Num r) (Num v) (Num T) (Num K))) = (S > K) \<and>
           strike (snd (routeStrikeContracts (Num S) (Num r) (Num v) (Num T) (Num K))) = Num K \<and>
           price (snd (routeStrikeContracts (Num S) (Num r) (Num v) (Num T) (Num K))) = Math_max (Num 0.01) putPrice \<and>
           delta (snd (routeStrikeContracts (Num S) (Num r) (Num v) (Num T) (Num K))) = normalCDF (Num d1) - Num 1 \<and>
           inTheMoney (snd (routeStrikeContracts (Num S) (Num r) (Num v) (Num T) (Num K))) = (S < K)"
proof -
  have "\<not> isl (blackScholes ''call'' (Num S) (Num K) (Num T) (Num r) (Num v))"
    using assms by (simp only: blackScholes_isl_call) simp
  then obtain c where c: "blackScholes ''call'' (Num S) (Num K) (Num T) (Num r) (Num v) = Inr c"
    by (cases "blackScholes ''call'' (Num S) (Num K) (Num T) (Num r) (Num v)") simp_all
  have "\<not> isl (blackScholes ''put'' (Num S) (Num K) (Num T) (Num r) (Num v))"
    using assms by (simp only: blackScholes_isl_put) simp
  then obtain p where p: "blackScholes ''put'' (Num S) (Num K) (Num T) (Num r) (Num v) = Inr p"
    by (cases "blackScholes ''put'' (Num S) (Num K) (Num T) (Num r) (Num v)") simp_all
  note d1 = d1_Num [OF assms(1,2,3,4), of r]
  show ?thesis
    unfolding routeStrikeContracts_def c p Let_def d1 by simp
qed

lemma routeStrikeContracts_invariant:
  assumes "0 < T" "0 < v"
  shows "strike (fst (routeStrikeContracts (Num S) (Num r) (Num v) (Num T) (Num K))) = Num K \<and>
         strike (snd (routeStrikeContracts (Num S) (Num r) (Num v) (Num T) (Num K))) = Num K \<and>
         Num 0 \<le> delta (fst (routeStrikeContracts (Num S) (Num r) (Num v) (Num T) (Num K))) \<and>
         delta (fst (routeStrikeContracts (Num S) (Num r) (Num v) (Num T) (Num K))) \<le> Num 1 \<and>
         Num (- 1) \<le> delta (snd (routeStrikeContracts (Num S) (Num r) (Num v) (Num T) (Num K))) \<and>
         delta (snd (routeStrikeContracts (Num S) (Num r) (Num v) (Num T) (Num K))) \<le> Num 0 \<and>
         inTheMoney (fst (routeStrikeContracts (Num S) (Num r) (Num v) (Num T) (Num K))) = (0 < K \<and> K < S) \<and>
         inTheMoney (snd (routeStrikeContracts (Num S) (Num r) (Num v) (Num T) (Num K))) = (0 < S \<and> S < K)"
proof (cases "0 < S \<and> 0 < K")
  case True
  then obtain d1 where f:
    "strike (fst (routeStrikeContracts (Num S) (Num r) (Num v) (Num T) (Num K))) = Num K"
    "delta (fst (routeStrikeContracts (Num S) (Num r) (Num v) (Num T) (Num K))) = normalCDF (Num d1)"
    "inTheMoney (fst (routeStrikeContracts (Num S) (Num r) (Num v) (Num T) (Num K))) = (S > K)"
    "strike (snd (routeStrikeContracts (Num S) (Num r) (Num v) (Num T) (Num K))) = Num K"
    "delta (snd (routeStrikeContracts (Num S) (Num r) (Num v) (Num T) (Num K))) = normalCDF (Num d1) - Num 1"
    "inTheMoney (snd (routeStrikeContracts (Num S) (Num r) (Num v) (Num T) (Num K))) = (S < K)"
    using routeStrikeContracts_priced [of S K T v r] assms by blast
  obtain y where y: "normalCDF (Num d1) = Num y" "0 \<le> y" "y \<le> 1"
    using normalCDF_Num_range [of d1] by blast
  show ?thesis
    unfolding f y using y(2,3) True by auto
next
  case False
  then have "Num S \<le> Num 0 \<or> Num K \<le> Num 0 \<or> Num T \<le> Num 0 \<or> Num v \<le> Num 0" by auto
  then have "routeStrikeContracts (Num S) (Num r) (Num v) (Num T) (Num K)
               = (routePlaceholder (Num K), routePlaceholder (Num K))"
    by (rule routeStrikeContracts_failure)
  then show ?thesis
    using False by (auto simp: routePlaceholder_def)
qed

lemma fold_upd_lookup:
  "fold (\<lambda>d m. m(d \<mapsto> f d)) ds m0 k = (if k \<in> set ds then Some (f k) else m0 k)"
  by (induction ds arbitrary: m0) auto

lemma routeOptionChain_lookup:
  "routeOptionChain S v ks ds d =
     (if d \<in> set ds then
        Some \<lparr>calls = map (\<lambda>K. fst (routeStrikeContracts (Num S) (Num 0.035) (Num v)
                               (Num (if d = 0 then 1 / 365 else real_of_int d / 365)) (Num K))) ks,
              puts = map (\<lambda>K. snd (routeStrikeContracts (Num S) (Num 0.035) (Num v)
                               (Num (if d = 0 then 1 / 365 else real_of_int d / 365)) (Num K))) ks\<rparr>
      else None)"
proof -
  have T: "(if d = 0 then Num (1 / 365) else Num (real_of_int d) / Num 365)
             = Num (if d = 0 then 1 / 365 else real_of_int d / 365)"
    by simp
  show ?thesis
    unfolding routeOptionChain_def Let_def
    by (simp only: fold_upd_lookup map_map comp_def T)
qed

lemma routeVolatility_pos: "0 < routeVolatility rows"
  by (auto simp: routeVolatility_def split: sum.splits prod.splits)

lemma routeDaysToExpiration_nonneg:
  "d \<in> set (routeDaysToExpiration requestedDate today) \<Longrightarrow> 0 \<le> d"
  by (auto simp: routeDaysToExpiration_def Let_def split: option.splits jsdate.splits if_splits)

lemma chainStrikeContracts_failure:
  assumes "S \<le> Num 0 \<or> K \<le> Num 0 \<or> T \<le> Num 0 \<or> v \<le> Num 0"
  shows "chainStrikeContracts S r v T K = (chainPlaceholder K, chainPlaceholder K)"
proof -
  have "isl (blackScholes ''call'' S K T r v)"
    using assms by (simp only: blackScholes_isl_call)
  then obtain e where "blackScholes ''call'' S K T r v = Inl e"
    by (auto simp: isl_def)
  then show ?thesis by (simp add: chainStrikeContracts_def)
qed

lemma chainStrikeContracts_priced:
  assumes "0 < S" "0 < K" "0 < T" "0 < v"
  shows "\<exists>callPrice putPrice d1.
           blackScholes ''call'' (Num S) (Num K) (Num T) (Num r) (Num v) = Inr callPrice \<and>
           blackScholes ''put'' (Num S) (Num K) (Num T) (Num r) (Num v) = Inr putPrice \<and>
           d1 = (ln (S / K) + (r + v * v / 2) * T) / (v * sqrt T) \<and>
           strike (fst (chainStrikeContracts (Num S) (Num r) (Num v) (Num T) (Num K))) = Num K \<and>
           price (fst (chainStrikeContracts (Num S) (Num r) (Num v) (Num T) (Num K))) = callPrice \<and>
           delta (fst (chainStrikeContracts (Num S) (Num r) (Num v) (Num T) (Num K))) = normalCDF (Num d1) \<and>
           inTheMoney (fst (chainStrikeContracts (Num S) (Num r) (Num v) (Num T) (Num K))) = (S > K) \<and>
           strike (snd (chainStrikeContracts (Num S) (Num r) (Num v) (Num T) (Num K))) = Num K \<and>
           price (snd (chainStrikeContracts (Num S) (Num r) (Num v) (Num T) (Num K))) = putPrice \<and>
           delta (snd (chainStrikeContracts (Num S) (Num r) (Num v) (Num T) (Num K))) = normalCDF (Num d1) - Num 1 \<and>
           inTheMoney (snd (chainStrikeContracts (Num S) (Num r) (Num v) (Num T) (Num K))) = (S < K)"
proof -
  have "\<not> isl (blackScholes ''call'' (Num S) (Num K) (Num T) (Num r) (Num v))"
    using assms by (simp only: blackScholes_isl_call) simp
  then obtain c where c: "blackScholes ''call'' (Num S) (Num K) (Num T) (Num r) (Num v) = Inr c"
    by (cases "blackScholes ''call'' (Num S) (Num K) (Num T) (Num r) (Num v)") simp_all
  have "\<not> isl (blackScholes ''put'' (Num S) (Num K) (Num T) (Num r) (Num v))"
    using assms by (simp only: blackScholes_isl_put) simp
  then obtain p where p: "blackScholes ''put'' (Num S) (Num K) (Num T) (Num r) (Num v) = Inr p"
    by (cases "blackScholes ''put'' (Num S) (Num K) (Num T) (Num r) (Num v)") simp_all
  note d1 = d1_Num [OF assms(1,2,3,4), of r]
  show ?thesis
    unfolding chainStrikeContracts_def c p Let_def d1 by simp
qed

lemma chainStrikeContracts_invariant:
  assumes "0 < S" "0 < v"
  shows "strike (fst (chainStrikeContracts (Num S) (Num r) (Num v) (Num T) (Num K))) = Num K \<and>
         strike (snd (chainStrikeContracts (Num S) (Num r) (Num v) (Num T) (Num K))) = Num K \<and>
         Num 0 \<le> delta (fst (chainStrikeContracts (Num S) (Num r) (Num v) (Num T) (Num K))) \<and>
         delta (fst (chainStrikeContracts (Num S) (Num r) (Num v) (Num T) (Num K))) \<le> Num 1 \<and>
         Num (- 1) \<le> delta (snd (chainStrikeContracts (Num S) (Num r) (Num v) (Num T) (Num K))) \<and>
         delta (snd (chainStrikeContracts (Num S) (Num r) (Num v) (Num T) (Num K))) \<le> Num 0 \<and>
         inTheMoney (fst (chainStrikeContracts (Num S) (Num r) (Num v) (Num T) (Num K))) = (0 < T \<and> 0 < K \<and> K < S) \<and>
         inTheMoney (snd (chainStrikeContracts (Num S) (Num r) (Num v) (Num T) (Num K))) = (0 < T \<and> S < K)"
proof (cases "0 < T \<and> 0 < K")
  case True
  then obtain d1 where f:
    "strike (fst (chainStrikeContracts (Num S) (Num r) (Num v) (Num T) (Num K))) = Num K"
    "delta (fst (chainStrikeContracts (Num S) (Num r) (Num v) (Num T) (Num K))) = normalCDF (Num d1)"
    "inTheMoney (fst (chainStrikeContracts (Num S) (Num r) (Num v) (Num T) (Num K))) = (S > K)"
    "strike (snd (chainStrikeContracts (Num S) (Num r) (Num v) (Num T) (Num K))) = Num K"
    "delta (snd (chainStrikeContracts (Num S) (Num r) (Num v) (Num T) (Num K))) = normalCDF (Num d1) - Num 1"
    "inTheMoney (snd (chainStrikeContracts (Num S) (Num r) (Num v) (Num T) (Num K))) = (S < K)"
    using chainStrikeContracts_priced [of S K T v r] assms by blast
  obtain y where y: "normalCDF (Num d1) = Num y" "0 \<le> y" "y \<le> 1"
    using normalCDF_Num_range [of d1] by blast
  show ?thesis
    unfolding f y using y(2,3) True by auto
next
  case False
  then have "Num S \<le> Num 0 \<or> Num K \<le> Num 0 \<or> Num T \<le> Num 0 \<or> Num v \<le> Num 0" by auto
  then have "chainStrikeContracts (Num S) (Num r) (Num v) (Num T) (Num K)
               = (chainPlaceholder (Num K), chainPlaceholder (Num K))"
    by (rule chainStrikeContracts_failure)
  then show ?thesis
    using False assms by (auto simp: chainPlaceholder_def)
qed

text \<open>
  With a strike that is \<open>NaN\<close>, as the ladder of a zero step gives, nothing throws and
  the delta of the call is \<open>NaN\<close>.
\<close>

lemma chainStrikeContracts_NaN_strike:
  assumes "0 < S" "0 < T" "0 < v"
  shows "delta (fst (chainStrikeContracts (Num S) (Num r) (Num v) (Num T) NaN)) = NaN"
proof -
  have "\<not> isl (blackScholes ''call'' (Num S) NaN (Num T) (Num r) (Num v))"
    using assms by (simp only: blackScholes_isl_call) simp
  then obtain c where c: "blackScholes ''call'' (Num S) NaN (Num T) (Num r) (Num v) = Inr c"
    by (cases "blackScholes ''call'' (Num S) NaN (Num T) (Num r) (Num v)") simp_all
  have "\<not> isl (blackScholes ''put'' (Num S) NaN (Num T) (Num r) (Num v))"
    using assms by (simp only: blackScholes_isl_put) simp
  then obtain p where p: "blackScholes ''put'' (Num S) NaN (Num T) (Num r) (Num v) = Inr p"
    by (cases "blackScholes ''put'' (Num S) NaN (Num T) (Num r) (Num v)") simp_all
  show ?thesis
    unfolding chainStrikeContracts_def c p Let_def by (simp add: normalCDF_NaN)
qed

lemma generateStrikes_finite:
  assumes "step \<noteq> 0" "K \<in> set (generateStrikes (Num p) n (Num step))"
  shows "\<exists>k. K = Num k"
  using assms by (auto simp: generateStrikes_def Let_def)

lemma chain_volatility_pos:
  "\<exists>w. (if (if v \<le> Num 0 \<or> \<not> isFinite v then Num 0.3 else v) > Num 2 then Num 2
         else (if v \<le> Num 0 \<or> \<not> isFinite v then Num 0.3 else v)) = Num w \<and> 0 < w"
proof (cases "v \<le> Num 0 \<or> \<not> isFinite v")
  case True
  then show ?thesis by (intro exI [of _ "3 / 10"]) simp
next
  case False
  then obtain x where x: "v = Num x" "0 < x" by (cases v) auto
  show ?thesis
  proof (cases "2 < x")
    case True
    then show ?thesis using x by (intro exI [of _ 2]) simp
  next
    case False
    then show ?thesis using x by (intro exI [of _ x]) simp
  qed
qed

lemma generateOptionChain_lookup:
  assumes "0 < S"
  shows "generateOptionChain (Num S) v r ds n step =
     Inr (\<lambda>d. if d \<in> set ds then
        Some \<lparr>calls = map (\<lambda>K. fst (chainStrikeContracts (Num S) r
                         (if (if v \<le> Num 0 \<or> \<not> isFinite v then Num 0.3 else v) > Num 2 then Num 2
                          else (if v \<le> Num 0 \<or> \<not> isFinite v then Num 0.3 else v))
                         (d / Num 365) K)) (generateStrikes (Num S) n step),
              puts = map (\<lambda>K. snd (chainStrikeContracts (Num S) r
                         (if (if v \<le> Num 0 \<or> \<not> isFinite v then Num 0.3 else v) > Num 2 then Num 2
                          else (if v \<le> Num 0 \<or> \<not> isFinite v then Num 0.3 else v))
                         (d / Num 365) K)) (generateStrikes (Num S) n step)\<rparr>
      else None)"
proof -
  have "\<not> Num S \<le> Num 0" using assms by simp
  then show ?thesis
    unfolding generateOptionChain_def Let_def DAYS_PER_YEAR_def
    by (simp only: if_False fold_upd_lookup map_map comp_def fun_eq_iff sum.inject) simp
qed

section \<open>Per-strike failures\<close>

text \<open>
  The handler answers every request that found a row with a chain that has, at each
  expiry of the ladder, one call and one put for each strike, in the order of the
  strikes.
\<close>

lemma optionsRoute_chain_entry:
  assumes "d \<in> set (routeDaysToExpiration requestedDate today)"
  shows "\<exists>e. responseOptionChain (optionsRoute None (p # rest) requestedDate today) d = Some e \<and>
             map strike (calls e) = map Num (routeStrikes p) \<and>
             map strike (puts e) = map Num (routeStrikes p)"
proof -
  define v where "v = routeVolatility (p # rest)"
  define T where "T = (if d = 0 then 1 / 365 else real_of_int d / 365)"
  define e where "e = \<lparr>calls = map (\<lambda>K. fst (routeStrikeContracts (Num p) (Num 0.035) (Num v) (Num T) (Num K))) (routeStrikes p),
                         puts = map (\<lambda>K. snd (routeStrikeContracts (Num p) (Num 0.035) (Num v) (Num T) (Num K))) (routeStrikes p)\<rparr>"
  have "0 \<le> d" using assms by (rule routeDaysToExpiration_nonneg)
  then have Tpos: "0 < T" unfolding T_def by simp
  have vpos: "0 < v" unfolding v_def by (rule routeVolatility_pos)
  note inv = routeStrikeContracts_invariant [OF Tpos vpos, of p "0.035"]
  have "responseOptionChain (optionsRoute None (p # rest) requestedDate today) d =
          routeOptionChain p v (routeStrikes p) (routeDaysToExpiration requestedDate today) d"
    by (simp add: optionsRoute_def Let_def v_def)
  also have "\<dots> = Some e"
    unfolding routeOptionChain_lookup e_def T_def using assms by simp
  finally have look: "responseOptionChain (optionsRoute None (p # rest) requestedDate today) d = Some e" .
  have "map strike (calls e) = map Num (routeStrikes p)"
    unfolding e_def using inv by (simp add: comp_def)
  moreover have "map strike (puts e) = map Num (routeStrikes p)"
    unfolding e_def using inv by (simp add: comp_def)
  ultimately show ?thesis using look by simp
qed

text \<open>
  C5. In the handler a strike whose pricing fails gets the placeholder with price
  0.01, zero Greeks and \<open>inTheMoney = False\<close>, and every other strike stays priced
  (\<open>routeStrikeContracts_failure\<close>, \<open>routeStrikeContracts_priced\<close>); no strike fails the
  chain. The \<open>catch\<close> of \<open>generateOptionChain\<close> pushes a placeholder whose price is 0,
  not the tick 0.01: with an expiry of 0 days the time to expiry is 0, every strike
  fails, and every contract of the chain has price 0.
\<close>

theorem generateOptionChain_placeholder_price:
  "chainStrikeContracts (Num 100) (Num (7 / 200)) (Num (3 / 10)) (Num 0 / Num DAYS_PER_YEAR) (Num 100)
     = (chainPlaceholder (Num 100), chainPlaceholder (Num 100)) \<and>
   price (chainPlaceholder (Num 100)) = Num 0 \<and>
   \<not> isl (generateOptionChain (Num 100) (Num (3 / 10)) (Num (7 / 200)) [Num 0] 10 (Num 5)) \<and>
   projr (generateOptionChain (Num 100) (Num (3 / 10)) (Num (7 / 200)) [Num 0] 10 (Num 5)) (Num 0) =
     Some \<lparr>calls = map chainPlaceholder (generateStrikes (Num 100) 10 (Num 5)),
           puts = map chainPlaceholder (generateStrikes (Num 100) 10 (Num 5))\<rparr> \<and>
   price (routePlaceholder (Num 100)) = Num 0.01"
proof -
  have ph: "chainStrikeContracts S r v (Num 0) K = (chainPlaceholder K, chainPlaceholder K)" for S r v K
    by (rule chainStrikeContracts_failure) simp
  note g = generateOptionChain_lookup [of 100 "Num (3 / 10)" "Num (7 / 200)" "[Num 0]" 10 "Num 5"]
  have look: "projr (generateOptionChain (Num 100) (Num (3 / 10)) (Num (7 / 200)) [Num 0] 10 (Num 5)) (Num 0) =
     Some \<lparr>calls = map chainPlaceholder (generateStrikes (Num 100) 10 (Num 5)),
           puts = map chainPlaceholder (generateStrikes (Num 100) 10 (Num 5))\<rparr>"
    using g by (simp add: ph)
  have ok: "\<not> isl (generateOptionChain (Num 100) (Num (3 / 10)) (Num (7 / 200)) [Num 0] 10 (Num 5))"
    using g by simp
  have one: "chainStrikeContracts (Num 100) (Num (7 / 200)) (Num (3 / 10)) (Num 0 / Num DAYS_PER_YEAR) (Num 100)
     = (chainPlaceholder (Num 100), chainPlaceholder (Num 100))"
    by (simp add: ph DAYS_PER_YEAR_def)
  have p0: "price (chainPlaceholder (Num 100)) = Num 0" by (simp add: chainPlaceholder_def)
  have p1: "price (routePlaceholder (Num 100)) = Num 0.01" by (simp add: routePlaceholder_def)
  from one p0 ok look p1 show ?thesis by (intro conjI)
qed

section \<open>Invariants of the contracts of a chain\<close>

lemma round_2: "round (10 / 5 :: real) = 2"
  by (simp add: round_def)

lemma routeStrikes_10: "routeStrikes 10 = [35, 30, 25, 20, 15, 10, 5, 0, - 5, - 10, - 15]"
  by (simp add: routeStrikes_def Let_def round_2 upto.simps)

lemma generateStrikes_10:
  "generateStrikes (Num 10) 10 (Num 5) = map Num [- 15, - 10, - 5, 0, 5, 10, 15, 20, 25, 30, 35]"
  by (simp add: generateStrikes_def Let_def round_2 upto.simps)

lemma optionsRoute_spot_10:
  "responseOptionChain (optionsRoute None [10] None 0) 30 =
     Some \<lparr>calls = map (\<lambda>K. fst (routeStrikeContracts (Num 10) (Num 0.035) (Num 0.25) (Num (30 / 365)) (Num K))) (routeStrikes 10),
           puts = map (\<lambda>K. snd (routeStrikeContracts (Num 10) (Num 0.035) (Num 0.25) (Num (30 / 365)) (Num K))) (routeStrikes 10)\<rparr>"
proof -
  have v: "routeVolatility [10] = 0.25" by (simp add: routeVolatility_def)
  have d: "routeDaysToExpiration None 0 = [0, 30, 60, 90, 180]"
    by (simp add: routeDaysToExpiration_def)
  have "responseOptionChain (optionsRoute None [10] None 0) 30 =
          routeOptionChain 10 0.25 (routeStrikes 10) [0, 30, 60, 90, 180] 30"
    by (simp add: optionsRoute_def Let_def v d)
  then show ?thesis
    unfolding routeOptionChain_lookup by simp
qed




end
